theory Spec2Isabelle
  imports Complex_Main
begin

section \<open>Data Empire: the tick engine and the offline catch-up simulator\<close>

text \<open>
  A shallow embedding of \<^verbatim>\<open>src/game/engine.ts\<close> and of the formula library it
  calls (\<^verbatim>\<open>formulas.ts\<close>), with the balance constants of \<^verbatim>\<open>balance.ts\<close>.

  A JavaScript \<^verbatim>\<open>number\<close> is modelled as a \<^typ>\<open>real\<close>: arithmetic is exact, so the
  rounding of IEEE doubles, the infinities and NaN are outside the model.  The only
  division by a value that is not a constant is \<^verbatim>\<open>1 / incident.base_resolution_time\<close>;
  a statement about the value of that quotient carries the hypothesis that the
  resolution time is not zero.

  The ambient sources of the code (\<^verbatim>\<open>Math.random()\<close>, \<^verbatim>\<open>Date.now()\<close>,
  \<^verbatim>\<open>performance.now()\<close>) are made explicit: a tick reads them from an environment, in
  the order in which the code calls them.
\<close>

subsection \<open>Types (\<^verbatim>\<open>src/types\<close>)\<close>

datatype RiskRating = low | medium | high

datatype DatasetStatus = ok | warning | failing

text \<open>
  \<^verbatim>\<open>Metrics\<close>, \<^verbatim>\<open>SLATargets\<close> and an incident's \<^verbatim>\<open>metric_impact\<close> have the same
  shape \<^verbatim>\<open>{T, A, C}\<close>; the code passes \<^verbatim>\<open>sla_targets\<close> where \<^verbatim>\<open>Metrics\<close> is expected.
\<close>

record Metrics =
  T :: real
  A :: real
  C :: real

record UnlockRequirement =
  dc_threshold :: "real option"
  tech_required :: "string option"

record Dataset =
  ds_id :: string
  ds_name :: string
  ds_description :: string
  base_dc :: real
  volume :: real
  risk_rating :: RiskRating
  sla_targets :: Metrics
  current_metrics :: Metrics
  pipelines_installed :: "string list"
  currentSLA :: real
  status :: DatasetStatus
  unlock_requirement :: "UnlockRequirement option"

datatype StaffRole = data_engineer | data_steward | sre | architect | cdao

record StaffEffects =
  global_T_bonus :: real
  global_A_bonus :: real
  global_C_bonus :: real
  incident_resolution_speed :: real
  dc_generation_bonus :: real

record Staff =
  staff_id :: string
  staff_name :: string
  role :: StaffRole
  staff_description :: string
  cost_to_hire :: real
  salary_per_minute :: real
  effects :: StaffEffects
  hired_at :: "real option"
  requires_tech :: "string option"

datatype EventType = audit | incident | bonus | choice

datatype IncidentType =
  pipeline_failure | data_delay | corrupted_batch | hardware_outage | quality_crash
  | regulatory_warning

record MetricChanges =
  change_T :: "real option"
  change_A :: "real option"
  change_C :: "real option"

record EventEffects =
  dc_change :: "real option"
  metric_changes :: "MetricChanges option"
  incident_chance_change :: "real option"
  spawn_incident :: "(IncidentType \<times> string) option"

record EventChoice =
  choice_id :: string
  label :: string
  choice_effects :: EventEffects

record TriggerConditions =
  min_sla :: "real option"
  max_sla :: "real option"
  min_dc :: "real option"
  condition_requires_tech :: "string option"

record Event =
  event_id :: string
  event_title :: string
  message :: string
  event_type :: EventType
  choices :: "EventChoice list"
  trigger_chance :: "real option"
  trigger_conditions :: "TriggerConditions option"

record Incident =
  incident_id :: string
  incident_type :: IncidentType
  title :: string
  description :: string
  dataset_id :: string
  metric_impact :: Metrics
  base_resolution_time :: real
  resolution_progress :: real
  started_at :: real
  halts_dc_generation :: bool

subsection \<open>Balance constants (\<^verbatim>\<open>balance.ts\<close>)\<close>

definition BASE_DECAY_RATE :: real where
  "BASE_DECAY_RATE = 0.1"

definition RESOLUTION_TIME_MINOR :: real where
  "RESOLUTION_TIME_MINOR = 30"

definition RESOLUTION_TIME_MODERATE :: real where
  "RESOLUTION_TIME_MODERATE = 60"

definition RESOLUTION_TIME_MAJOR :: real where
  "RESOLUTION_TIME_MAJOR = 120"

definition IMPACT_MINOR :: Metrics where
  "IMPACT_MINOR = \<lparr>T = - 5, A = - 5, C = - 5\<rparr>"

definition IMPACT_MODERATE :: Metrics where
  "IMPACT_MODERATE = \<lparr>T = - 15, A = - 15, C = - 10\<rparr>"

definition IMPACT_MAJOR :: Metrics where
  "IMPACT_MAJOR = \<lparr>T = - 30, A = - 30, C = - 20\<rparr>"

subsection \<open>Formula library (\<^verbatim>\<open>formulas.ts\<close>)\<close>

definition calculateSLA :: "Metrics \<Rightarrow> real" where
  "calculateSLA metrics =
     (let sla = T metrics * 0.4 + A metrics * 0.4 + C metrics * 0.2
      in max 0 (min 100 sla))"

definition calculateDatasetDC :: "Dataset \<Rightarrow> real \<Rightarrow> real" where
  "calculateDatasetDC dataset globalMultipliers =
     (let sla = calculateSLA (current_metrics dataset);
          baseDC = base_dc dataset;
          efficiency = sla / 100
      in (baseDC * efficiency * globalMultipliers) / 60)"

text \<open>\<^verbatim>\<open>staff.reduce((m, member) => m * member.effects.dc_generation_bonus, 1.0)\<close>\<close>

definition calculateStaffMultiplier :: "Staff list \<Rightarrow> real" where
  "calculateStaffMultiplier staff =
     foldl (\<lambda>multiplier member. multiplier * dc_generation_bonus (effects member)) 1 staff"

definition calculateTotalDC :: "Dataset list \<Rightarrow> Staff list \<Rightarrow> real" where
  "calculateTotalDC datasets staff =
     (let staffMultiplier = calculateStaffMultiplier staff
      in foldl (\<lambda>total dataset. total + calculateDatasetDC dataset staffMultiplier) 0 datasets)"

definition applyMetricDecay :: "Dataset \<Rightarrow> real \<Rightarrow> Dataset" where
  "applyMetricDecay dataset decayRate =
     dataset\<lparr>current_metrics :=
       \<lparr>T = max 0 (T (current_metrics dataset) - decayRate),
        A = max 0 (A (current_metrics dataset) - decayRate),
        C = max 0 (C (current_metrics dataset) - decayRate)\<rparr>\<rparr>"

definition applyStaffBonuses :: "Dataset \<Rightarrow> Staff list \<Rightarrow> Dataset" where
  "applyStaffBonuses dataset staff =
     (let totalBonus =
            foldl (\<lambda>acc member.
                     \<lparr>T = T acc + global_T_bonus (effects member),
                      A = A acc + global_A_bonus (effects member),
                      C = C acc + global_C_bonus (effects member)\<rparr>)
                  \<lparr>T = 0, A = 0, C = 0\<rparr> staff
      in dataset\<lparr>current_metrics :=
           \<lparr>T = min 100 (T (current_metrics dataset) + T totalBonus),
            A = min 100 (A (current_metrics dataset) + A totalBonus),
            C = min 100 (C (current_metrics dataset) + C totalBonus)\<rparr>\<rparr>)"

definition calculateDatasetStatus :: "Dataset \<Rightarrow> DatasetStatus" where
  "calculateDatasetStatus dataset =
     (let sla = calculateSLA (current_metrics dataset);
          target = calculateSLA (sla_targets dataset)
      in if sla \<ge> target then ok
         else if sla \<ge> target * 0.8 then warning
         else failing)"

definition riskMultipliers :: "RiskRating \<Rightarrow> real" where
  "riskMultipliers r = (case r of low \<Rightarrow> 1.0 | medium \<Rightarrow> 1.5 | high \<Rightarrow> 2.0)"

text \<open>The engine calls it with the default \<^verbatim>\<open>baseChance = 0.003\<close>.\<close>

definition calculateIncidentChance :: "Dataset \<Rightarrow> real \<Rightarrow> real" where
  "calculateIncidentChance dataset baseChance =
     (let sla = calculateSLA (current_metrics dataset);
          volumeFactor = 1 + volume dataset / 1000;
          slaFactor = (100 - sla) / 100;
          riskMultiplier = riskMultipliers (risk_rating dataset);
          chance = baseChance * volumeFactor * slaFactor * riskMultiplier
      in max 0.001 (min 0.1 chance))"

subsection \<open>The ambient sources of a tick\<close>

text \<open>\<^verbatim>\<open>Math.random()\<close> returns a number in the half-open interval from 0 to 1.\<close>

typedef draw = "{x::real. 0 \<le> x \<and> x < 1}"
  by (rule exI[of _ 0]) simp

text \<open>
  The environment of one call: the successive results of \<^verbatim>\<open>Math.random()\<close>,
  \<^verbatim>\<open>Date.now()\<close> and \<^verbatim>\<open>performance.now()\<close>, numbered in call order, and the text
  of an incident identifier
  \<^verbatim>\<open>`incident-${Date.now()}-${Math.random().toString(36).substring(2, 9)}`\<close>
  as a function of the two numbers it prints.
\<close>

record Env =
  random :: "nat \<Rightarrow> draw"
  date_now :: "nat \<Rightarrow> real"
  perf_now :: "nat \<Rightarrow> real"
  render_id :: "real \<Rightarrow> draw \<Rightarrow> string"

subsection \<open>Tick engine (\<^verbatim>\<open>engine.ts\<close>)\<close>

text \<open>
  \<^verbatim>\<open>processIncidents\<close> returns the object \<^verbatim>\<open>{updatedDatasets, updatedIncidents}\<close>,
  here the pair in that order.
\<close>

definition processIncidents ::
  "Dataset list \<Rightarrow> Incident list \<Rightarrow> Staff list \<Rightarrow> Dataset list \<times> Incident list" where
  "processIncidents datasets incidents staff =
     (let resolutionSpeedMultiplier =
            foldl (\<lambda>multiplier member.
                     multiplier * incident_resolution_speed (effects member)) 1 staff;
          updatedIncidents =
            filter (\<lambda>incident. resolution_progress incident < 1)
              (map (\<lambda>incident.
                      let progressPerTick =
                            (1 / base_resolution_time incident) * resolutionSpeedMultiplier;
                          newProgress = resolution_progress incident + progressPerTick
                      in incident\<lparr>resolution_progress := newProgress\<rparr>)
                   incidents);
          updatedDatasets =
            map (\<lambda>dataset.
                   let affectingIncidents =
                         filter (\<lambda>incident. dataset_id incident = ds_id dataset)
                           updatedIncidents
                   in if length affectingIncidents = 0 then dataset
                      else dataset\<lparr>current_metrics :=
                             foldl (\<lambda>metrics incident.
                                      \<lparr>T = max 0 (T metrics + T (metric_impact incident)),
                                       A = max 0 (A metrics + A (metric_impact incident)),
                                       C = max 0 (C metrics + C (metric_impact incident))\<rparr>)
                                   (current_metrics dataset) affectingIncidents\<rparr>)
                datasets
      in (updatedDatasets, updatedIncidents))"

record IncidentTemplate =
  tpl_type :: IncidentType
  tpl_title :: string
  tpl_description :: string
  impact :: Metrics
  resolutionTime :: real
  haltsDC :: bool

definition incidentTypes :: "Dataset \<Rightarrow> IncidentTemplate list" where
  "incidentTypes dataset =
     [\<lparr>tpl_type = data_delay, tpl_title = ''Data Delay'',
       tpl_description = ds_name dataset @ '' is experiencing upstream delays'',
       impact = IMPACT_MINOR, resolutionTime = RESOLUTION_TIME_MINOR, haltsDC = False\<rparr>,
      \<lparr>tpl_type = corrupted_batch, tpl_title = ''Corrupted Batch'',
       tpl_description = ''Data quality issue detected in '' @ ds_name dataset,
       impact = IMPACT_MODERATE, resolutionTime = RESOLUTION_TIME_MODERATE, haltsDC = False\<rparr>,
      \<lparr>tpl_type = pipeline_failure, tpl_title = ''Pipeline Failure'',
       tpl_description = ''Critical pipeline failure in '' @ ds_name dataset,
       impact = IMPACT_MAJOR, resolutionTime = RESOLUTION_TIME_MAJOR, haltsDC = True\<rparr>]"

text \<open>
  \<^verbatim>\<open>createIncident\<close> draws twice (\<open>k\<close> and \<open>k + 1\<close>: the template, then the
  identifier) and reads the date twice (\<open>t\<close> and \<open>t + 1\<close>: the identifier, then
  \<^verbatim>\<open>started_at\<close>).  A draw is below 1, so the template index is below 3.
\<close>

definition createIncident :: "Env \<Rightarrow> nat \<Rightarrow> nat \<Rightarrow> Dataset \<Rightarrow> Incident" where
  "createIncident env k t dataset =
     (let template =
            incidentTypes dataset
              ! nat \<lfloor>Rep_draw (random env k) * real (length (incidentTypes dataset))\<rfloor>
      in \<lparr>incident_id = render_id env (date_now env t) (random env (k + 1)),
          incident_type = tpl_type template,
          title = tpl_title template,
          description = tpl_description template,
          dataset_id = ds_id dataset,
          metric_impact = impact template,
          base_resolution_time = resolutionTime template,
          resolution_progress = 0,
          started_at = date_now env (t + 1),
          halts_dc_generation = haltsDC template\<rparr>)"

text \<open>
  Step 6 of \<^verbatim>\<open>processTick\<close>, the \<^verbatim>\<open>forEach\<close> that rolls for a new incident on every
  dataset: \<open>k\<close> and \<open>t\<close> count the draws and the date readings made so far.
\<close>

fun rollIncidents :: "Env \<Rightarrow> nat \<Rightarrow> nat \<Rightarrow> Dataset list \<Rightarrow> Incident list" where
  "rollIncidents env k t [] = []"
| "rollIncidents env k t (dataset # rest) =
     (let incidentChance = calculateIncidentChance dataset 0.003
      in if Rep_draw (random env k) < incidentChance
         then createIncident env (k + 1) t dataset # rollIncidents env (k + 3) (t + 2) rest
         else rollIncidents env (k + 1) t rest)"

record PerfMetrics =
  tickDurationMs :: real
  decayTimeMs :: real
  incidentTimeMs :: real
  dcCalcTimeMs :: real

record TickResult =
  dcGenerated :: real
  newIncidents :: "Incident list"
  newEvent :: "Event option"
  updatedDatasets :: "Dataset list"
  updatedIncidents :: "Incident list"
  performance :: PerfMetrics

record Snapshot =
  datasets :: "Dataset list"
  staff :: "Staff list"
  activeIncidents :: "Incident list"
  currentEvent :: "Event option"
  dc :: real
  lifetimeDC :: real
  prestigeLevel :: real

text \<open>
  \<^verbatim>\<open>performance.now()\<close> is read eight times in an active tick: at the start (0), around
  the decay step (1, 2), around the incident step (3, 4), around the DC calculation
  (5, 6) and at the end (7).  A paused tick reads it once and returns the zeroed timings.
\<close>

definition processTick :: "Env \<Rightarrow> Snapshot \<Rightarrow> TickResult" where
  "processTick env state =
     (if currentEvent state \<noteq> None then
        \<lparr>dcGenerated = 0, newIncidents = [], newEvent = None,
         updatedDatasets = datasets state,
         updatedIncidents = activeIncidents state,
         performance =
           \<lparr>tickDurationMs = 0, decayTimeMs = 0, incidentTimeMs = 0, dcCalcTimeMs = 0\<rparr>\<rparr>
      else
        let decayedDatasets =
              map (\<lambda>dataset.
                     let decayReduction = real (length (pipelines_installed dataset)) * 0.01;
                         effectiveDecayRate = max 0.01 (BASE_DECAY_RATE - decayReduction);
                         decayed = applyMetricDecay dataset effectiveDecayRate
                     in if length (staff state) > 0
                        then applyStaffBonuses decayed (staff state) else decayed)
                  (datasets state);
            processed = processIncidents decayedDatasets (activeIncidents state) (staff state);
            datasetsAfterIncidents = fst processed;
            survivingIncidents = snd processed;
            refreshedDatasets =
              map (\<lambda>dataset.
                     dataset\<lparr>currentSLA := calculateSLA (current_metrics dataset),
                             status := calculateDatasetStatus dataset\<rparr>)
                  datasetsAfterIncidents;
            generated = calculateTotalDC refreshedDatasets (staff state);
            spawned = rollIncidents env 0 0 refreshedDatasets
        in \<lparr>dcGenerated = generated, newIncidents = spawned, newEvent = None,
            updatedDatasets = refreshedDatasets,
            updatedIncidents = survivingIncidents,
            performance =
              \<lparr>tickDurationMs = perf_now env 7 - perf_now env 0,
               decayTimeMs = perf_now env 2 - perf_now env 1,
               incidentTimeMs = perf_now env 4 - perf_now env 3,
               dcCalcTimeMs = perf_now env 6 - perf_now env 5\<rparr>\<rparr>)"

subsection \<open>Offline catch-up (\<^verbatim>\<open>calculateOfflineProgress\<close>)\<close>

definition MAX_OFFLINE_SECONDS :: real where
  "MAX_OFFLINE_SECONDS = 86400"

definition OFFLINE_EFFICIENCY :: real where
  "OFFLINE_EFFICIENCY = 0.5"

definition BATCH_SIZE :: real where
  "BATCH_SIZE = 60"

record OfflineResult =
  dcEarned :: real
  ticksSimulated :: real
  finalDatasets :: "Dataset list"

text \<open>
  The \<^verbatim>\<open>for\<close> loop over the batches, from the counter \<open>batch\<close> on; the triple is
  \<^verbatim>\<open>(totalDCEarned, currentDatasets, ticksProcessed)\<close>.  The \<open>batch\<close>-th call of
  \<^verbatim>\<open>processTick\<close> runs in the environment \<open>envs batch\<close>.
\<close>

function offlineLoop ::
  "(nat \<Rightarrow> Env) \<Rightarrow> Snapshot \<Rightarrow> real \<Rightarrow> int \<Rightarrow> nat
     \<Rightarrow> real \<times> Dataset list \<times> real \<Rightarrow> real \<times> Dataset list \<times> real" where
  "offlineLoop envs state ticksToSimulate batches batch
       (totalDCEarned, currentDatasets, ticksProcessed) =
     (if int batch < batches then
        offlineLoop envs state ticksToSimulate batches (batch + 1)
          (totalDCEarned
             + dcGenerated
                 (processTick (envs batch)
                    (state\<lparr>datasets := currentDatasets, activeIncidents := [],
                            currentEvent := None\<rparr>))
               * min BATCH_SIZE (ticksToSimulate - ticksProcessed) * OFFLINE_EFFICIENCY,
           updatedDatasets
             (processTick (envs batch)
                (state\<lparr>datasets := currentDatasets, activeIncidents := [],
                        currentEvent := None\<rparr>)),
           ticksProcessed + min BATCH_SIZE (ticksToSimulate - ticksProcessed))
      else (totalDCEarned, currentDatasets, ticksProcessed))"
  by pat_completeness auto
termination
  by (relation "measure (\<lambda>(envs, state, ticksToSimulate, batches, batch, acc).
                           nat (batches - int batch))") auto

declare offlineLoop.simps [simp del]

text \<open>
  The state parameter of the code has no \<^verbatim>\<open>currentEvent\<close>; the call overwrites the
  field, so its value in the \<^typ>\<open>Snapshot\<close> given here is never read.
\<close>

definition calculateOfflineProgress :: "(nat \<Rightarrow> Env) \<Rightarrow> Snapshot \<Rightarrow> real \<Rightarrow> OfflineResult" where
  "calculateOfflineProgress envs state secondsElapsed =
     (let ticksToSimulate = min secondsElapsed MAX_OFFLINE_SECONDS;
          batches = \<lceil>ticksToSimulate / BATCH_SIZE\<rceil>;
          final = offlineLoop envs state ticksToSimulate batches 0 (0, datasets state, 0)
      in \<lparr>dcEarned = of_int \<lfloor>fst final\<rfloor>,
          ticksSimulated = snd (snd final),
          finalDatasets = fst (snd final)\<rparr>)"

subsection \<open>The fixtures of \<^verbatim>\<open>engine.test.ts\<close>\<close>

text \<open>
  The dataset, incident, staff member and event that the repository's own tests of the
  engine build, and an environment whose draws and clocks are fixed.  They are the
  concrete inputs at which the theorems below are instantiated.
\<close>

definition env0 :: Env where
  "env0 = \<lparr>random = (\<lambda>k. Abs_draw 0), date_now = (\<lambda>k. 0), perf_now = (\<lambda>k. real k),
            render_id = (\<lambda>t r. ''incident-0-0'')\<rparr>"

definition mockDataset :: Dataset where
  "mockDataset =
     \<lparr>ds_id = ''test-dataset'', ds_name = ''Test Dataset'', ds_description = ''Test'',
      base_dc = 60, volume = 100, risk_rating = low,
      sla_targets = \<lparr>T = 95, A = 95, C = 95\<rparr>,
      current_metrics = \<lparr>T = 100, A = 100, C = 100\<rparr>,
      pipelines_installed = [], currentSLA = 100, status = ok,
      unlock_requirement = None\<rparr>"

text \<open>The tests' incident, as a function of its \<^verbatim>\<open>resolution_progress\<close> and its flag.\<close>

definition mockIncident :: "real \<Rightarrow> bool \<Rightarrow> Incident" where
  "mockIncident progress halts =
     \<lparr>incident_id = ''incident-1'', incident_type = data_delay, title = ''Data Delay'',
      description = ''Test incident'', dataset_id = ''test-dataset'',
      metric_impact = \<lparr>T = - 10, A = - 5, C = - 5\<rparr>,
      base_resolution_time = 30, resolution_progress = progress, started_at = 0,
      halts_dc_generation = halts\<rparr>"

definition mockEngineer :: Staff where
  "mockEngineer =
     \<lparr>staff_id = ''engineer'', staff_name = ''Data Engineer'', role = data_engineer,
      staff_description = ''Improves metrics'', cost_to_hire = 1000, salary_per_minute = 10,
      effects = \<lparr>global_T_bonus = 0.2, global_A_bonus = 0.2, global_C_bonus = 0.2,
                 incident_resolution_speed = 2, dc_generation_bonus = 1\<rparr>,
      hired_at = None, requires_tech = None\<rparr>"

definition mockEvent :: Event where
  "mockEvent =
     \<lparr>event_id = ''event-1'', event_title = ''Test Event'', message = ''Test'',
      event_type = choice, choices = [], trigger_chance = None,
      trigger_conditions = None\<rparr>"

definition mockState :: "Staff list \<Rightarrow> Incident list \<Rightarrow> Event option \<Rightarrow> Snapshot" where
  "mockState members incidents event =
     \<lparr>datasets = [mockDataset], staff = members, activeIncidents = incidents,
      currentEvent = event, dc = 0, lifetimeDC = 0, prestigeLevel = 0\<rparr>"

subsection \<open>Vocabulary of the properties\<close>

text \<open>The three metrics lie between 0 and 100.\<close>

definition metricsInRange :: "Metrics \<Rightarrow> bool" where
  "metricsInRange m \<longleftrightarrow>
     0 \<le> T m \<and> T m \<le> 100 \<and> 0 \<le> A m \<and> A m \<le> 100 \<and> 0 \<le> C m \<and> C m \<le> 100"

text \<open>The product of every staff member's resolution-speed factor (1 for no staff).\<close>

definition speedProduct :: "Staff list \<Rightarrow> real" where
  "speedProduct members = prod_list (map (\<lambda>member. incident_resolution_speed (effects member)) members)"

text \<open>An incident after one tick of resolution at the speed of the given staff.\<close>

definition advanced :: "Staff list \<Rightarrow> Incident \<Rightarrow> Incident" where
  "advanced members i =
     i\<lparr>resolution_progress :=
         resolution_progress i + (1 / base_resolution_time i) * speedProduct members\<rparr>"

text \<open>The cumulative impact of a list of incidents on a dataset's metrics, floored at 0.\<close>

definition applyImpacts :: "Metrics \<Rightarrow> Incident list \<Rightarrow> Metrics" where
  "applyImpacts m incs =
     foldl (\<lambda>metrics i. \<lparr>T = max 0 (T metrics + T (metric_impact i)),
                          A = max 0 (A metrics + A (metric_impact i)),
                          C = max 0 (C metrics + C (metric_impact i))\<rparr>) m incs"

text \<open>
  The decay policy in the words of the specification:
  \<^verbatim>\<open>max(0.01, baseRate - 0.01 * installedCount)\<close> with the base rate 0.1.
\<close>

definition decayPolicy :: "nat \<Rightarrow> real" where
  "decayPolicy installedCount = max 0.01 (0.1 - 0.01 * real installedCount)"

text \<open>Step 1 of an active tick on one dataset: decay at the policy's rate, then the staff bonus.\<close>

definition decayThenBonus :: "Staff list \<Rightarrow> Dataset \<Rightarrow> Dataset" where
  "decayThenBonus members dataset =
     (if length members > 0
      then applyStaffBonuses
             (applyMetricDecay dataset (decayPolicy (length (pipelines_installed dataset))))
             members
      else applyMetricDecay dataset (decayPolicy (length (pipelines_installed dataset))))"

text \<open>Step 4 of an active tick on one dataset: the stored SLA and the status are recomputed.\<close>

definition refreshDataset :: "Dataset \<Rightarrow> Dataset" where
  "refreshDataset dataset =
     dataset\<lparr>currentSLA := calculateSLA (current_metrics dataset),
             status := calculateDatasetStatus dataset\<rparr>"

section \<open>Properties\<close>

subsection \<open>Projections of a tick\<close>

lemma template_index_in_range:
  "nat \<lfloor>Rep_draw r * real (length (incidentTypes dataset))\<rfloor> < length (incidentTypes dataset)"
proof -
  have "0 \<le> Rep_draw r" "Rep_draw r < 1" using Rep_draw[of r] by simp_all
  then have "0 \<le> Rep_draw r * 3" "Rep_draw r * 3 < 3" by simp_all
  then have "\<lfloor>Rep_draw r * 3\<rfloor> < 3" by (simp add: floor_less_iff)
  then have "nat \<lfloor>Rep_draw r * 3\<rfloor> < 3" by linarith
  then show ?thesis by (simp add: incidentTypes_def)
qed

lemma foldl_mult_prod_list:
  "foldl (\<lambda>m x. m * f x) (a::real) xs = a * prod_list (map f xs)"
  by (induction xs arbitrary: a) (simp_all add: mult.assoc)

lemma snd_processIncidents:
  "snd (processIncidents ds incs st) =
     filter (\<lambda>i. resolution_progress i < 1) (map (advanced st) incs)"
  by (simp add: processIncidents_def Let_def advanced_def[abs_def] speedProduct_def
      foldl_mult_prod_list)

lemma fst_processIncidents:
  "fst (processIncidents ds incs st) =
     map (\<lambda>d. d\<lparr>current_metrics :=
                  applyImpacts (current_metrics d)
                    (filter (\<lambda>i. dataset_id i = ds_id d)
                       (filter (\<lambda>i. resolution_progress i < 1) (map (advanced st) incs)))\<rparr>)
         ds"
  by (simp add: processIncidents_def Let_def advanced_def[abs_def] speedProduct_def
      foldl_mult_prod_list applyImpacts_def)

lemma fst_processIncidents_nil: "fst (processIncidents ds [] st) = ds"
  by (simp add: processIncidents_def Let_def)

lemma decayPolicy_eq: "max 0.01 (BASE_DECAY_RATE - real n * 0.01) = decayPolicy n"
  by (simp add: decayPolicy_def BASE_DECAY_RATE_def mult.commute)

lemma decayPolicy_bounds: "1 / 100 \<le> decayPolicy n" "decayPolicy n \<le> 1 / 10"
  by (simp_all add: decayPolicy_def max_def)

lemma updatedIncidents_active:
  "currentEvent s = None \<Longrightarrow>
   updatedIncidents (processTick env s) =
     filter (\<lambda>i. resolution_progress i < 1) (map (advanced (staff s)) (activeIncidents s))"
  by (simp add: processTick_def Let_def snd_processIncidents)

lemma updatedDatasets_active:
  "currentEvent s = None \<Longrightarrow>
   updatedDatasets (processTick env s) =
     map refreshDataset
       (fst (processIncidents (map (decayThenBonus (staff s)) (datasets s))
               (activeIncidents s) (staff s)))"
  unfolding processTick_def Let_def decayPolicy_eq decayThenBonus_def[abs_def]
    refreshDataset_def[abs_def]
  by (simp only: if_True if_False simp_thms TickResult.simps)

lemma dcGenerated_active:
  "currentEvent s = None \<Longrightarrow>
   dcGenerated (processTick env s)
     = calculateTotalDC (updatedDatasets (processTick env s)) (staff s)"
  by (simp add: processTick_def Let_def)

subsection \<open>The spawn roll on the fixtures\<close>

text \<open>
  With every draw equal to 0 the roll succeeds on each dataset (an incident chance is at
  least 0.001) and picks the first archetype, the minor data delay.
\<close>

lemma env0_draw: "Rep_draw (random env0 k) = 0"
  by (simp add: env0_def Abs_draw_inverse)

lemma spawn_example:
  "newIncidents (processTick env0 (mockState [] [] None)) =
     [\<lparr>incident_id = ''incident-0-0'', incident_type = data_delay, title = ''Data Delay'',
       description = ''Test Dataset is experiencing upstream delays'',
       dataset_id = ''test-dataset'', metric_impact = \<lparr>T = - 5, A = - 5, C = - 5\<rparr>,
       base_resolution_time = 30, resolution_progress = 0, started_at = 0,
       halts_dc_generation = False\<rparr>]"
proof -
  have "0 < max (0.001::real) x" for x
    by (rule less_le_trans[OF _ max.cobounded1]) simp
  then have chance: "0 < calculateIncidentChance d 0.003" for d
    unfolding calculateIncidentChance_def Let_def .
  have "newIncidents (processTick env0 (mockState [] [] None))
          = rollIncidents env0 0 0 (updatedDatasets (processTick env0 (mockState [] [] None)))"
    by (simp add: processTick_def Let_def mockState_def)
  also have "updatedDatasets (processTick env0 (mockState [] [] None))
          = [refreshDataset (decayThenBonus [] mockDataset)]"
    by (simp add: updatedDatasets_active mockState_def fst_processIncidents_nil)
  also have "rollIncidents env0 0 0 [refreshDataset (decayThenBonus [] mockDataset)]
          = [createIncident env0 1 0 (refreshDataset (decayThenBonus [] mockDataset))]"
    using chance by (simp add: env0_draw Let_def)
  also have "createIncident env0 1 0 (refreshDataset (decayThenBonus [] mockDataset)) =
      \<lparr>incident_id = ''incident-0-0'', incident_type = data_delay, title = ''Data Delay'',
       description = ''Test Dataset is experiencing upstream delays'',
       dataset_id = ''test-dataset'', metric_impact = \<lparr>T = - 5, A = - 5, C = - 5\<rparr>,
       base_resolution_time = 30, resolution_progress = 0, started_at = 0,
       halts_dc_generation = False\<rparr>"
    by (simp add: createIncident_def env0_draw incidentTypes_def Let_def)
       (simp add: env0_def refreshDataset_def decayThenBonus_def applyMetricDecay_def
          mockDataset_def IMPACT_MINOR_def RESOLUTION_TIME_MINOR_def)
  finally show ?thesis .
qed

subsection \<open>The paused tick\<close>

text \<open>
  C3.  For every snapshot whose blocking event is non-null, \<^verbatim>\<open>processTick\<close> returns
  \<^verbatim>\<open>dcGenerated = 0\<close>, an empty list of new incidents, no new event, and the input's
  datasets and incidents, unchanged; the timings are the zeroed ones.
\<close>

theorem paused_tick_returns_input:
  assumes "currentEvent s \<noteq> None"
  shows "processTick env s =
     \<lparr>dcGenerated = 0, newIncidents = [], newEvent = None,
      updatedDatasets = datasets s, updatedIncidents = activeIncidents s,
      performance =
        \<lparr>tickDurationMs = 0, decayTimeMs = 0, incidentTimeMs = 0, dcCalcTimeMs = 0\<rparr>\<rparr>"
  using assms by (simp add: processTick_def)

theorem paused_tick_returns_input_witness:
  "currentEvent (mockState [mockEngineer] [mockIncident 0 True] (Some mockEvent)) \<noteq> None
   \<and> processTick env0 (mockState [mockEngineer] [mockIncident 0 True] (Some mockEvent)) =
     \<lparr>dcGenerated = 0, newIncidents = [], newEvent = None,
      updatedDatasets = [mockDataset], updatedIncidents = [mockIncident 0 True],
      performance =
        \<lparr>tickDurationMs = 0, decayTimeMs = 0, incidentTimeMs = 0, dcCalcTimeMs = 0\<rparr>\<rparr>"
  using paused_tick_returns_input
          [of "mockState [mockEngineer] [mockIncident 0 True] (Some mockEvent)" env0]
  by (simp add: mockState_def)

subsection \<open>Incidents keep their identity\<close>

text \<open>
  C10.  In an active tick, each incident of \<^verbatim>\<open>updatedIncidents\<close> is one of the input
  incidents with only its \<^verbatim>\<open>resolution_progress\<close> changed: identifier, type, title,
  description, dataset, impact, base resolution time, start time and DC-halt flag are
  those of the input incident.  In particular no incident that is not in the input
  appears in the list.
\<close>

theorem updatedIncidents_frame:
  assumes "currentEvent s = None"
      and "j \<in> set (updatedIncidents (processTick env s))"
  shows "\<exists>i \<in> set (activeIncidents s).
           j = i\<lparr>resolution_progress := resolution_progress j\<rparr>
           \<and> incident_id j = incident_id i \<and> incident_type j = incident_type i
           \<and> title j = title i \<and> description j = description i
           \<and> dataset_id j = dataset_id i \<and> metric_impact j = metric_impact i
           \<and> base_resolution_time j = base_resolution_time i
           \<and> started_at j = started_at i
           \<and> halts_dc_generation j = halts_dc_generation i"
  using assms by (auto simp: updatedIncidents_active advanced_def)

theorem updatedIncidents_frame_witness:
  "currentEvent (mockState [] [mockIncident 0 False] None) = None
   \<and> mockIncident (1 / 30) False
       \<in> set (updatedIncidents (processTick env0 (mockState [] [mockIncident 0 False] None)))
   \<and> (\<exists>i \<in> set (activeIncidents (mockState [] [mockIncident 0 False] None)).
         mockIncident (1 / 30) False
           = i\<lparr>resolution_progress := resolution_progress (mockIncident (1 / 30) False)\<rparr>
         \<and> incident_id (mockIncident (1 / 30) False) = incident_id i
         \<and> incident_type (mockIncident (1 / 30) False) = incident_type i
         \<and> title (mockIncident (1 / 30) False) = title i
         \<and> description (mockIncident (1 / 30) False) = description i
         \<and> dataset_id (mockIncident (1 / 30) False) = dataset_id i
         \<and> metric_impact (mockIncident (1 / 30) False) = metric_impact i
         \<and> base_resolution_time (mockIncident (1 / 30) False) = base_resolution_time i
         \<and> started_at (mockIncident (1 / 30) False) = started_at i
         \<and> halts_dc_generation (mockIncident (1 / 30) False) = halts_dc_generation i)"
proof -
  have active: "currentEvent (mockState [] [mockIncident 0 False] None) = None"
    by (simp add: mockState_def)
  have present: "mockIncident (1 / 30) False
       \<in> set (updatedIncidents (processTick env0 (mockState [] [mockIncident 0 False] None)))"
    by (simp add: updatedIncidents_active active)
       (simp add: mockState_def mockIncident_def advanced_def speedProduct_def)
  from updatedIncidents_frame [OF active present] active present show ?thesis
    by blast
qed

subsection \<open>Offline catch-up\<close>

lemma offlineLoop_ticks:
  assumes "0 \<le> t" and "int k \<le> \<lceil>t / 60\<rceil>" and "p = min (60 * real k) t"
  shows "snd (snd (offlineLoop envs st t \<lceil>t / 60\<rceil> k (tot, cur, p))) = t"
  using assms
proof (induction "nat (\<lceil>t / 60\<rceil> - int k)" arbitrary: k tot cur p)
  case 0
  then have stop: "\<lceil>t / 60\<rceil> = int k" by simp
  then have "t / 60 \<le> real k" by (metis le_of_int_ceiling of_int_of_nat_eq)
  then have "p = t" using 0 by (simp add: min_def)
  moreover have "\<not> int k < \<lceil>t / 60\<rceil>" using stop by simp
  ultimately show ?case by (subst offlineLoop.simps) simp
next
  case (Suc n)
  then have lt: "int k < \<lceil>t / 60\<rceil>" by linarith
  then have "real k < t / 60" by (simp add: less_ceiling_iff)
  then have pk: "p = 60 * real k" using Suc.prems by (simp add: min_def)
  have step: "p + min BATCH_SIZE (t - p) = min (60 * real (Suc k)) t"
    using pk by (simp add: BATCH_SIZE_def min_def)
  have "snd (snd (offlineLoop envs st t \<lceil>t / 60\<rceil> (Suc k)
                    (tot', cur', p + min BATCH_SIZE (t - p)))) = t" for tot' cur'
    using Suc.hyps(2) lt Suc.prems(1) step
    by (intro Suc.hyps(1)) auto
  then show ?case using lt by (subst offlineLoop.simps) simp
qed

text \<open>
  C4.  For every snapshot and every \<^verbatim>\<open>secondsElapsed\<close> that is not negative,
  \<^verbatim>\<open>calculateOfflineProgress\<close> returns \<^verbatim>\<open>ticksSimulated = min(secondsElapsed, 86400)\<close>:
  the capped elapsed time, not the number of batches.  In particular 100000 seconds
  give exactly 86400 ticks.
\<close>

theorem offline_ticks_capped:
  assumes "0 \<le> secondsElapsed"
  shows "ticksSimulated (calculateOfflineProgress envs state secondsElapsed)
           = min secondsElapsed 86400
         \<and> ticksSimulated (calculateOfflineProgress envs state 100000) = 86400"
proof -
  have loop: "snd (snd (offlineLoop envs state t \<lceil>t / 60\<rceil> 0 (0, datasets state, 0))) = t"
    if "0 \<le> t" for t
    using that by (intro offlineLoop_ticks) simp_all
  have "ticksSimulated (calculateOfflineProgress envs state x) = min x 86400"
    if "0 \<le> x" for x
    using loop[of "min x 86400"] that
    by (simp add: calculateOfflineProgress_def Let_def MAX_OFFLINE_SECONDS_def
        BATCH_SIZE_def)
  from this[OF assms] this[of 100000] show ?thesis by simp
qed

theorem offline_ticks_capped_witness:
  "(0::real) \<le> 300
   \<and> ticksSimulated (calculateOfflineProgress (\<lambda>batch. env0) (mockState [] [] None) 300) = 300
   \<and> ticksSimulated (calculateOfflineProgress (\<lambda>batch. env0) (mockState [] [] None) 100000)
       = 86400"
  using offline_ticks_capped [of 300 "\<lambda>batch. env0" "mockState [] [] None"] by simp

subsection \<open>One tick of a single healthy dataset\<close>

lemma calculateSLA_uniform:
  assumes "0 \<le> x" and "x \<le> 100"
  shows "calculateSLA \<lparr>T = x, A = x, C = x\<rparr> = x"
proof -
  have "x * 0.4 + x * 0.4 + x * 0.2 = x" by argo
  then show ?thesis
    using assms unfolding calculateSLA_def Let_def Metrics.simps
    by (simp only: min_def max_def) auto
qed

lemma full_dataset_tick:
  assumes "datasets s = [d]" and "current_metrics d = \<lparr>T = 100, A = 100, C = 100\<rparr>"
    and "staff s = []" and "activeIncidents s = []" and "currentEvent s = None"
    and "r = decayPolicy (length (pipelines_installed d))"
  shows "updatedDatasets (processTick env s) =
           [refreshDataset (d\<lparr>current_metrics := \<lparr>T = 100 - r, A = 100 - r, C = 100 - r\<rparr>\<rparr>)]"
proof -
  have "0 \<le> 100 - r"
    using decayPolicy_bounds(2)[of "length (pipelines_installed d)"] assms(6) by linarith
  then show ?thesis
    using assms
    by (simp add: updatedDatasets_active fst_processIncidents_nil decayThenBonus_def
        applyMetricDecay_def)
qed

lemma full_dataset_dc:
  assumes "datasets s = [d]" and "current_metrics d = \<lparr>T = 100, A = 100, C = 100\<rparr>"
    and "staff s = []" and "activeIncidents s = []" and "currentEvent s = None"
    and "base_dc d = 60"
  shows "dcGenerated (processTick env s)
           = (100 - decayPolicy (length (pipelines_installed d))) / 100"
proof -
  define r where "r = decayPolicy (length (pipelines_installed d))"
  have r: "0 \<le> 100 - r" "100 - r \<le> 100"
    using decayPolicy_bounds[of "length (pipelines_installed d)"] by (simp_all add: r_def)
  have upd: "updatedDatasets (processTick env s) =
           [refreshDataset (d\<lparr>current_metrics := \<lparr>T = 100 - r, A = 100 - r, C = 100 - r\<rparr>\<rparr>)]"
    using assms(1-5) r_def by (rule full_dataset_tick)
  show ?thesis
    using assms(3,5,6) calculateSLA_uniform[OF r]
    by (simp add: dcGenerated_active upd calculateTotalDC_def calculateStaffMultiplier_def
        calculateDatasetDC_def refreshDataset_def r_def[symmetric])
qed

text \<open>
  C6.  A snapshot with exactly one dataset of base rate 60 DC per minute, metrics
  100/100/100, SLA targets 95/95/95 and no installed pipelines, with no staff, no
  incidents and no blocking event: one tick generates 0.999 DC (within 0.001 of 1.0),
  leaves the metrics at 99.9 each and the status at \<^verbatim>\<open>ok\<close>.  The other fields of the
  dataset and of the snapshot are arbitrary.
\<close>

theorem single_dataset_tick_scenario:
  assumes "datasets s = [d]" and "base_dc d = 60"
    and "current_metrics d = \<lparr>T = 100, A = 100, C = 100\<rparr>"
    and "sla_targets d = \<lparr>T = 95, A = 95, C = 95\<rparr>"
    and "pipelines_installed d = []"
    and "staff s = []" and "activeIncidents s = []" and "currentEvent s = None"
  shows "dcGenerated (processTick env s) = 0.999
       \<and> \<bar>dcGenerated (processTick env s) - 1\<bar> \<le> 0.001
       \<and> map current_metrics (updatedDatasets (processTick env s))
           = [\<lparr>T = 99.9, A = 99.9, C = 99.9\<rparr>]
       \<and> map status (updatedDatasets (processTick env s)) = [ok]"
proof -
  have rate: "decayPolicy (length (pipelines_installed d)) = 1 / 10"
    using assms(5) by (simp add: decayPolicy_def)
  have dc: "dcGenerated (processTick env s) = 0.999"
    using full_dataset_dc[OF assms(1,3,6,7,8,2), of env] by (simp add: rate)
  have upd: "updatedDatasets (processTick env s) =
      [refreshDataset (d\<lparr>current_metrics := \<lparr>T = 99.9, A = 99.9, C = 99.9\<rparr>\<rparr>)]"
    using full_dataset_tick[OF assms(1,3,6,7,8) refl, of env] by (simp add: rate)
  have "calculateSLA \<lparr>T = 95, A = 95, C = 95\<rparr> = 95"
    by (rule calculateSLA_uniform) simp_all
  moreover have "calculateSLA \<lparr>T = 99.9, A = 99.9, C = 99.9\<rparr> = 99.9"
    by (rule calculateSLA_uniform) simp_all
  ultimately have "status (refreshDataset (d\<lparr>current_metrics := \<lparr>T = 99.9, A = 99.9, C = 99.9\<rparr>\<rparr>)) = ok"
    using assms(4) by (simp add: refreshDataset_def calculateDatasetStatus_def)
  then show ?thesis using dc upd by (simp add: refreshDataset_def)
qed

theorem single_dataset_tick_scenario_witness:
  "datasets (mockState [] [] None) = [mockDataset] \<and> base_dc mockDataset = 60
   \<and> current_metrics mockDataset = \<lparr>T = 100, A = 100, C = 100\<rparr>
   \<and> sla_targets mockDataset = \<lparr>T = 95, A = 95, C = 95\<rparr>
   \<and> pipelines_installed mockDataset = []
   \<and> staff (mockState [] [] None) = [] \<and> activeIncidents (mockState [] [] None) = []
   \<and> currentEvent (mockState [] [] None) = None
   \<and> dcGenerated (processTick env0 (mockState [] [] None)) = 0.999
   \<and> \<bar>dcGenerated (processTick env0 (mockState [] [] None)) - 1\<bar> \<le> 0.001
   \<and> map current_metrics (updatedDatasets (processTick env0 (mockState [] [] None)))
       = [\<lparr>T = 99.9, A = 99.9, C = 99.9\<rparr>]
   \<and> map status (updatedDatasets (processTick env0 (mockState [] [] None))) = [ok]"
  using single_dataset_tick_scenario [of "mockState [] [] None" mockDataset env0]
  by (simp add: mockState_def mockDataset_def)

subsection \<open>One offline minute\<close>

lemma offline_one_batch:
  "calculateOfflineProgress envs state 60 =
     \<lparr>dcEarned = of_int \<lfloor>dcGenerated (processTick (envs 0)
                  (state\<lparr>datasets := datasets state, activeIncidents := [],
                          currentEvent := None\<rparr>)) * 60 * 0.5\<rfloor>,
      ticksSimulated = 60,
      finalDatasets = updatedDatasets (processTick (envs 0)
                  (state\<lparr>datasets := datasets state, activeIncidents := [],
                          currentEvent := None\<rparr>))\<rparr>"
  by (simp add: calculateOfflineProgress_def Let_def MAX_OFFLINE_SECONDS_def BATCH_SIZE_def
      OFFLINE_EFFICIENCY_def offlineLoop.simps[of _ _ _ _ 0]
      offlineLoop.simps[of _ _ _ _ "Suc 0"])

text \<open>
  C5.  A snapshot with a single dataset whose metrics are 100/100/100 (an SLA of 100) and
  whose base rate is 60 DC per minute, with no staff: 60 seconds offline give
  \<^verbatim>\<open>ticksSimulated = 60\<close> and \<^verbatim>\<open>dcEarned = 29\<close>, strictly between 25 and 35.  The
  earned total is the DC of one tick (run without incidents and without event) times the
  60 ticks of the batch times the offline efficiency 0.5, floored.  The number of
  installed pipelines is arbitrary: it moves the product between 29.97 and 29.997.
\<close>

theorem offline_single_dataset_minute:
  assumes "datasets state = [d]" and "staff state = []" and "base_dc d = 60"
    and "current_metrics d = \<lparr>T = 100, A = 100, C = 100\<rparr>"
  shows "ticksSimulated (calculateOfflineProgress envs state 60) = 60
       \<and> dcEarned (calculateOfflineProgress envs state 60)
           = of_int \<lfloor>dcGenerated (processTick (envs 0)
                          (state\<lparr>activeIncidents := [], currentEvent := None\<rparr>)) * 60 * 0.5\<rfloor>
       \<and> dcEarned (calculateOfflineProgress envs state 60) = 29
       \<and> 25 < dcEarned (calculateOfflineProgress envs state 60)
       \<and> dcEarned (calculateOfflineProgress envs state 60) < 35"
proof -
  let ?s = "state\<lparr>activeIncidents := [], currentEvent := None\<rparr>"
  define r where "r = decayPolicy (length (pipelines_installed d))"
  have r: "1 / 100 \<le> r" "r \<le> 1 / 10"
    using decayPolicy_bounds[of "length (pipelines_installed d)"] by (simp_all add: r_def)
  have dc: "dcGenerated (processTick (envs 0) ?s) = (100 - r) / 100"
    unfolding r_def using assms by (intro full_dataset_dc) simp_all
  have "\<lfloor>(100 - r) / 100 * 60 * (1 / 2)\<rfloor> = 29"
    using r by (simp add: floor_eq_iff)
  then have fl: "\<lfloor>dcGenerated (processTick (envs 0) ?s) * 60 * 0.5\<rfloor> = 29"
    by (simp add: dc)
  have same: "state\<lparr>datasets := datasets state, activeIncidents := [], currentEvent := None\<rparr>
                = ?s"
    by simp
  show ?thesis
    unfolding offline_one_batch same using fl by simp
qed

theorem offline_single_dataset_minute_witness:
  "datasets (mockState [] [] None) = [mockDataset] \<and> staff (mockState [] [] None) = []
   \<and> base_dc mockDataset = 60
   \<and> current_metrics mockDataset = \<lparr>T = 100, A = 100, C = 100\<rparr>
   \<and> ticksSimulated (calculateOfflineProgress (\<lambda>batch. env0) (mockState [] [] None) 60) = 60
   \<and> dcEarned (calculateOfflineProgress (\<lambda>batch. env0) (mockState [] [] None) 60) = 29"
  using offline_single_dataset_minute [of "mockState [] [] None" mockDataset "\<lambda>batch. env0"]
  by (simp add: mockState_def mockDataset_def)

subsection \<open>Metrics stay in range\<close>

lemma calculateSLA_range: "0 \<le> calculateSLA m \<and> calculateSLA m \<le> 100"
  by (simp add: calculateSLA_def Let_def)

lemma applyMetricDecay_range:
  assumes "metricsInRange (current_metrics d)" and "0 \<le> r"
  shows "metricsInRange (current_metrics (applyMetricDecay d r))"
  using assms by (simp add: metricsInRange_def applyMetricDecay_def)

lemma totalBonus_nonneg:
  assumes "\<forall>m \<in> set st. 0 \<le> global_T_bonus (effects m) \<and> 0 \<le> global_A_bonus (effects m)
             \<and> 0 \<le> global_C_bonus (effects m)"
      and "0 \<le> T acc \<and> 0 \<le> A acc \<and> 0 \<le> C acc"
  shows "0 \<le> T (foldl (\<lambda>acc member.
                     \<lparr>T = T acc + global_T_bonus (effects member),
                      A = A acc + global_A_bonus (effects member),
                      C = C acc + global_C_bonus (effects member)\<rparr>) acc st)
       \<and> 0 \<le> A (foldl (\<lambda>acc member.
                     \<lparr>T = T acc + global_T_bonus (effects member),
                      A = A acc + global_A_bonus (effects member),
                      C = C acc + global_C_bonus (effects member)\<rparr>) acc st)
       \<and> 0 \<le> C (foldl (\<lambda>acc member.
                     \<lparr>T = T acc + global_T_bonus (effects member),
                      A = A acc + global_A_bonus (effects member),
                      C = C acc + global_C_bonus (effects member)\<rparr>) acc st)"
  using assms by (induction st arbitrary: acc) simp_all

lemma applyStaffBonuses_range:
  assumes "metricsInRange (current_metrics d)"
      and "\<forall>m \<in> set st. 0 \<le> global_T_bonus (effects m) \<and> 0 \<le> global_A_bonus (effects m)
             \<and> 0 \<le> global_C_bonus (effects m)"
  shows "metricsInRange (current_metrics (applyStaffBonuses d st))"
proof -
  have "0 \<le> T \<lparr>T = 0, A = 0, C = 0\<rparr> \<and> 0 \<le> A \<lparr>T = 0, A = 0, C = 0\<rparr>
          \<and> 0 \<le> C \<lparr>T = 0, A = 0, C = 0\<rparr>"
    by simp
  from totalBonus_nonneg[OF assms(2) this] assms(1) show ?thesis
    by (simp add: metricsInRange_def applyStaffBonuses_def Let_def)
qed

lemma decayThenBonus_range:
  assumes "metricsInRange (current_metrics d)"
      and "\<forall>m \<in> set st. 0 \<le> global_T_bonus (effects m) \<and> 0 \<le> global_A_bonus (effects m)
             \<and> 0 \<le> global_C_bonus (effects m)"
  shows "metricsInRange (current_metrics (decayThenBonus st d))"
proof -
  have "0 \<le> decayPolicy (length (pipelines_installed d))"
    using decayPolicy_bounds(1)[of "length (pipelines_installed d)"] by linarith
  then have "metricsInRange (current_metrics
               (applyMetricDecay d (decayPolicy (length (pipelines_installed d)))))"
    using assms(1) by (rule applyMetricDecay_range[rotated])
  then show ?thesis
    using assms(2) by (simp add: decayThenBonus_def applyStaffBonuses_range)
qed

lemma applyImpacts_range:
  assumes "metricsInRange m"
      and "\<forall>i \<in> set incs. T (metric_impact i) \<le> 0 \<and> A (metric_impact i) \<le> 0
             \<and> C (metric_impact i) \<le> 0"
  shows "metricsInRange (applyImpacts m incs)"
  using assms
proof (induction incs arbitrary: m)
  case Nil
  then show ?case by (simp add: applyImpacts_def)
next
  case (Cons i incs)
  have "metricsInRange \<lparr>T = max 0 (T m + T (metric_impact i)),
                         A = max 0 (A m + A (metric_impact i)),
                         C = max 0 (C m + C (metric_impact i))\<rparr>"
    using Cons.prems by (simp add: metricsInRange_def)
  then show ?case using Cons by (simp add: applyImpacts_def)
qed

lemma processIncidents_range:
  assumes "\<forall>d \<in> set ds. metricsInRange (current_metrics d)"
      and "\<forall>i \<in> set incs. T (metric_impact i) \<le> 0 \<and> A (metric_impact i) \<le> 0
             \<and> C (metric_impact i) \<le> 0"
  shows "\<forall>d \<in> set (fst (processIncidents ds incs st)). metricsInRange (current_metrics d)"
proof -
  have "metricsInRange (applyImpacts (current_metrics d)
          (filter P (filter Q (map (advanced st) incs))))" if "d \<in> set ds" for d P Q
    using that assms by (intro applyImpacts_range) (auto simp: advanced_def)
  then show ?thesis by (auto simp: fst_processIncidents)
qed

text \<open>
  C7.  In an active tick on a snapshot whose datasets' metrics all lie in the range from 0
  to 100, whose staff bonuses per metric are not negative and whose incidents' impacts per
  metric are not positive, every dataset of the result has its three metrics and its
  stored \<^verbatim>\<open>currentSLA\<close> in the range from 0 to 100.
\<close>

theorem tick_keeps_metrics_in_range:
  assumes "currentEvent s = None"
    and "\<forall>d \<in> set (datasets s). metricsInRange (current_metrics d)"
    and "\<forall>m \<in> set (staff s). 0 \<le> global_T_bonus (effects m)
             \<and> 0 \<le> global_A_bonus (effects m) \<and> 0 \<le> global_C_bonus (effects m)"
    and "\<forall>i \<in> set (activeIncidents s). T (metric_impact i) \<le> 0
             \<and> A (metric_impact i) \<le> 0 \<and> C (metric_impact i) \<le> 0"
  shows "\<forall>d \<in> set (updatedDatasets (processTick env s)).
           0 \<le> T (current_metrics d) \<and> T (current_metrics d) \<le> 100
         \<and> 0 \<le> A (current_metrics d) \<and> A (current_metrics d) \<le> 100
         \<and> 0 \<le> C (current_metrics d) \<and> C (current_metrics d) \<le> 100
         \<and> 0 \<le> currentSLA d \<and> currentSLA d \<le> 100"
proof -
  have "\<forall>d \<in> set (map (decayThenBonus (staff s)) (datasets s)).
          metricsInRange (current_metrics d)"
    using assms(2,3) by (simp add: decayThenBonus_range)
  from processIncidents_range[OF this assms(4), of "staff s"]
  show ?thesis
    unfolding updatedDatasets_active[OF assms(1)]
    using calculateSLA_range by (auto simp: refreshDataset_def metricsInRange_def)
qed

theorem tick_keeps_metrics_in_range_witness:
  "currentEvent (mockState [mockEngineer] [mockIncident 0 False] None) = None
   \<and> list_all (\<lambda>d. metricsInRange (current_metrics d))
         (datasets (mockState [mockEngineer] [mockIncident 0 False] None))
   \<and> list_all (\<lambda>m. 0 \<le> global_T_bonus (effects m) \<and> 0 \<le> global_A_bonus (effects m)
                    \<and> 0 \<le> global_C_bonus (effects m))
         (staff (mockState [mockEngineer] [mockIncident 0 False] None))
   \<and> list_all (\<lambda>i. T (metric_impact i) \<le> 0 \<and> A (metric_impact i) \<le> 0
                    \<and> C (metric_impact i) \<le> 0)
         (activeIncidents (mockState [mockEngineer] [mockIncident 0 False] None))
   \<and> list_all (\<lambda>d. 0 \<le> T (current_metrics d) \<and> T (current_metrics d) \<le> 100
                  \<and> 0 \<le> A (current_metrics d) \<and> A (current_metrics d) \<le> 100
                  \<and> 0 \<le> C (current_metrics d) \<and> C (current_metrics d) \<le> 100
                  \<and> 0 \<le> currentSLA d \<and> currentSLA d \<le> 100)
         (updatedDatasets
            (processTick env0 (mockState [mockEngineer] [mockIncident 0 False] None)))"
proof -
  let ?s = "mockState [mockEngineer] [mockIncident 0 False] None"
  have h1: "currentEvent ?s = None" by (simp add: mockState_def)
  have h2: "\<forall>d \<in> set (datasets ?s). metricsInRange (current_metrics d)"
    by (simp add: mockState_def mockDataset_def metricsInRange_def)
  have h3: "\<forall>m \<in> set (staff ?s). 0 \<le> global_T_bonus (effects m)
             \<and> 0 \<le> global_A_bonus (effects m) \<and> 0 \<le> global_C_bonus (effects m)"
    by (simp add: mockState_def mockEngineer_def)
  have h4: "\<forall>i \<in> set (activeIncidents ?s). T (metric_impact i) \<le> 0
             \<and> A (metric_impact i) \<le> 0 \<and> C (metric_impact i) \<le> 0"
    by (simp add: mockState_def mockIncident_def)
  from tick_keeps_metrics_in_range [OF h1 h2 h3 h4, of env0] h1 h2 h3 h4
  show ?thesis unfolding list_all_iff by blast
qed

subsection \<open>The decay policy\<close>

text \<open>
  C8.  In an active tick every dataset is decayed at the rate
  \<^verbatim>\<open>max(0.01, 0.1 - 0.01 * number of installed pipelines)\<close> (\<^const>\<open>decayPolicy\<close>): with
  no staff and no incidents the metrics of the result are the input's, each less that
  rate and floored at 0; in general the result is the decay at that rate followed by the
  staff bonus, the incident step and the refresh.  \<^verbatim>\<open>applyMetricDecay\<close> subtracts the
  rate from each of T, A and C with a floor of 0, so that no metric of its result is
  below 0, whatever the starting values and the rate.
\<close>

theorem decay_policy_and_floor:
  "(currentEvent s = None \<and> staff s = [] \<and> activeIncidents s = [] \<longrightarrow>
      map current_metrics (updatedDatasets (processTick env s)) =
        map (\<lambda>dataset.
               \<lparr>T = max 0 (T (current_metrics dataset)
                     - max 0.01 (0.1 - 0.01 * real (length (pipelines_installed dataset)))),
                A = max 0 (A (current_metrics dataset)
                     - max 0.01 (0.1 - 0.01 * real (length (pipelines_installed dataset)))),
                C = max 0 (C (current_metrics dataset)
                     - max 0.01 (0.1 - 0.01 * real (length (pipelines_installed dataset))))\<rparr>)
            (datasets s))
   \<and> (currentEvent s = None \<longrightarrow>
        updatedDatasets (processTick env s) =
          map refreshDataset
            (fst (processIncidents
                    (map (\<lambda>dataset.
                            if staff s = []
                            then applyMetricDecay dataset
                                   (max 0.01
                                      (0.1 - 0.01 * real (length (pipelines_installed dataset))))
                            else applyStaffBonuses
                                   (applyMetricDecay dataset
                                      (max 0.01
                                         (0.1 - 0.01
                                            * real (length (pipelines_installed dataset)))))
                                   (staff s))
                         (datasets s))
                    (activeIncidents s) (staff s))))
   \<and> current_metrics (applyMetricDecay d rate) =
        \<lparr>T = max 0 (T (current_metrics d) - rate),
         A = max 0 (A (current_metrics d) - rate),
         C = max 0 (C (current_metrics d) - rate)\<rparr>
   \<and> 0 \<le> T (current_metrics (applyMetricDecay d rate))
   \<and> 0 \<le> A (current_metrics (applyMetricDecay d rate))
   \<and> 0 \<le> C (current_metrics (applyMetricDecay d rate))"
proof -
  have "map current_metrics (updatedDatasets (processTick env s)) =
        map (\<lambda>dataset.
               \<lparr>T = max 0 (T (current_metrics dataset)
                             - decayPolicy (length (pipelines_installed dataset))),
                A = max 0 (A (current_metrics dataset)
                             - decayPolicy (length (pipelines_installed dataset))),
                C = max 0 (C (current_metrics dataset)
                             - decayPolicy (length (pipelines_installed dataset)))\<rparr>)
            (datasets s)"
    if "currentEvent s = None" "staff s = []" "activeIncidents s = []"
    using that
    by (simp add: updatedDatasets_active fst_processIncidents_nil decayThenBonus_def
        refreshDataset_def applyMetricDecay_def)
  moreover have "updatedDatasets (processTick env s) =
          map refreshDataset
            (fst (processIncidents
                    (map (\<lambda>dataset.
                            if staff s = []
                            then applyMetricDecay dataset
                                   (decayPolicy (length (pipelines_installed dataset)))
                            else applyStaffBonuses
                                   (applyMetricDecay dataset
                                      (decayPolicy (length (pipelines_installed dataset))))
                                   (staff s))
                         (datasets s))
                    (activeIncidents s) (staff s)))"
    if "currentEvent s = None"
    using that
    by (cases "staff s = []") (simp_all add: updatedDatasets_active decayThenBonus_def[abs_def])
  moreover have "current_metrics (applyMetricDecay d rate) =
        \<lparr>T = max 0 (T (current_metrics d) - rate),
         A = max 0 (A (current_metrics d) - rate),
         C = max 0 (C (current_metrics d) - rate)\<rparr>"
    by (simp add: applyMetricDecay_def)
  ultimately show ?thesis
    unfolding decayPolicy_def[symmetric] by simp
qed

theorem decay_policy_and_floor_witness:
  "currentEvent (mockState [] [] None) = None \<and> staff (mockState [] [] None) = []
   \<and> activeIncidents (mockState [] [] None) = []
   \<and> map current_metrics (updatedDatasets (processTick env0 (mockState [] [] None)))
       = [\<lparr>T = 99.9, A = 99.9, C = 99.9\<rparr>]
   \<and> current_metrics (applyMetricDecay mockDataset 1000) = \<lparr>T = 0, A = 0, C = 0\<rparr>"
proof -
  let ?s = "mockState [] [] None"
  have h: "currentEvent ?s = None \<and> staff ?s = [] \<and> activeIncidents ?s = []"
    by (simp add: mockState_def)
  have d: "datasets ?s = [mockDataset]"
    by (simp add: mockState_def)
  note fact = decay_policy_and_floor [of ?s env0 mockDataset 1000]
  from fact h have "map current_metrics (updatedDatasets (processTick env0 ?s)) =
        map (\<lambda>dataset.
               \<lparr>T = max 0 (T (current_metrics dataset)
                     - max 0.01 (0.1 - 0.01 * real (length (pipelines_installed dataset)))),
                A = max 0 (A (current_metrics dataset)
                     - max 0.01 (0.1 - 0.01 * real (length (pipelines_installed dataset)))),
                C = max 0 (C (current_metrics dataset)
                     - max 0.01 (0.1 - 0.01 * real (length (pipelines_installed dataset))))\<rparr>)
            (datasets ?s)"
    by blast
  then have tick: "map current_metrics (updatedDatasets (processTick env0 ?s))
                     = [\<lparr>T = 99.9, A = 99.9, C = 99.9\<rparr>]"
    by (simp add: d) (simp add: mockDataset_def)
  from fact have "current_metrics (applyMetricDecay mockDataset 1000) =
        \<lparr>T = max 0 (T (current_metrics mockDataset) - 1000),
         A = max 0 (A (current_metrics mockDataset) - 1000),
         C = max 0 (C (current_metrics mockDataset) - 1000)\<rparr>"
    by blast
  then have "current_metrics (applyMetricDecay mockDataset 1000) = \<lparr>T = 0, A = 0, C = 0\<rparr>"
    by (simp add: mockDataset_def)
  with h tick show ?thesis by blast
qed

subsection \<open>The DC-halt flag is inert\<close>

lemma survivors_without_flag:
  "filter (\<lambda>i. dataset_id i = k)
     (filter (\<lambda>i. resolution_progress i < 1)
        (map (advanced st) (map (\<lambda>i. i\<lparr>halts_dc_generation := False\<rparr>) incs)))
   = map (\<lambda>i. i\<lparr>halts_dc_generation := False\<rparr>)
       (filter (\<lambda>i. dataset_id i = k)
          (filter (\<lambda>i. resolution_progress i < 1) (map (advanced st) incs)))"
  by (induction incs) (simp_all add: advanced_def)

lemma applyImpacts_without_flag:
  "applyImpacts m (map (\<lambda>i. i\<lparr>halts_dc_generation := False\<rparr>) incs) = applyImpacts m incs"
  by (simp add: applyImpacts_def foldl_map)

lemma processIncidents_without_flag:
  "fst (processIncidents ds (map (\<lambda>i. i\<lparr>halts_dc_generation := False\<rparr>) incs) st)
     = fst (processIncidents ds incs st)"
  by (simp only: fst_processIncidents survivors_without_flag applyImpacts_without_flag)

lemma flags_only_erase:
  assumes "list_all2 (\<lambda>i i'. i' = i\<lparr>halts_dc_generation := halts_dc_generation i'\<rparr>) xs ys"
  shows "map (\<lambda>i. i\<lparr>halts_dc_generation := False\<rparr>) ys
           = map (\<lambda>i. i\<lparr>halts_dc_generation := False\<rparr>) xs"
  using assms
proof (induction rule: list_all2_induct)
  case Nil
  then show ?case by simp
next
  case (Cons x xs y ys)
  from Cons.hyps(1) have "y\<lparr>halts_dc_generation := False\<rparr> = x\<lparr>halts_dc_generation := False\<rparr>"
    by (metis Incident.update_convs(10) Incident.surjective)
  then show ?case using Cons.IH by simp
qed

text \<open>
  C2.  Two snapshots that differ only in the \<^verbatim>\<open>halts_dc_generation\<close> flag of their
  incidents (the incident lists are equal position by position up to that flag, every
  other field of the snapshots is the same) get the same \<^verbatim>\<open>dcGenerated\<close> from
  \<^verbatim>\<open>processTick\<close>, in whatever environments the two ticks run.  This covers the active
  ticks of the claim, and the paused ones, where both results are 0.
\<close>

theorem dcGenerated_ignores_halts_flag:
  assumes "s' = s\<lparr>activeIncidents := activeIncidents s'\<rparr>"
      and "list_all2 (\<lambda>i i'. i' = i\<lparr>halts_dc_generation := halts_dc_generation i'\<rparr>)
             (activeIncidents s) (activeIncidents s')"
  shows "dcGenerated (processTick env' s') = dcGenerated (processTick env s)"
proof (cases "currentEvent s = None")
  case True
  have same: "currentEvent s' = None" "staff s' = staff s" "datasets s' = datasets s"
    using True by (subst assms(1), simp)+
  have "fst (processIncidents ds (activeIncidents s') st)
          = fst (processIncidents ds (activeIncidents s) st)" for ds st
    using processIncidents_without_flag[of ds "activeIncidents s'" st]
      processIncidents_without_flag[of ds "activeIncidents s" st]
      flags_only_erase[OF assms(2)]
    by simp
  then have "updatedDatasets (processTick env' s') = updatedDatasets (processTick env s)"
    by (simp add: updatedDatasets_active True same)
  then show ?thesis
    by (simp add: dcGenerated_active True same)
next
  case False
  then have "currentEvent s' \<noteq> None" by (subst assms(1)) simp
  then show ?thesis using False by (simp add: processTick_def)
qed

theorem dcGenerated_ignores_halts_flag_witness:
  "mockState [] [mockIncident 0 True] None
     = (mockState [] [mockIncident 0 False] None)
         \<lparr>activeIncidents := activeIncidents (mockState [] [mockIncident 0 True] None)\<rparr>
   \<and> list_all2 (\<lambda>i i'. i' = i\<lparr>halts_dc_generation := halts_dc_generation i'\<rparr>)
         (activeIncidents (mockState [] [mockIncident 0 False] None))
         (activeIncidents (mockState [] [mockIncident 0 True] None))
   \<and> dcGenerated (processTick env0 (mockState [] [mockIncident 0 True] None))
       = dcGenerated (processTick env0 (mockState [] [mockIncident 0 False] None))"
proof -
  have h1: "mockState [] [mockIncident 0 True] None
     = (mockState [] [mockIncident 0 False] None)
         \<lparr>activeIncidents := activeIncidents (mockState [] [mockIncident 0 True] None)\<rparr>"
    by (simp add: mockState_def)
  have h2: "list_all2 (\<lambda>i i'. i' = i\<lparr>halts_dc_generation := halts_dc_generation i'\<rparr>)
         (activeIncidents (mockState [] [mockIncident 0 False] None))
         (activeIncidents (mockState [] [mockIncident 0 True] None))"
    by (simp add: mockState_def mockIncident_def)
  from dcGenerated_ignores_halts_flag [OF h1 h2, of env0 env0] h1 h2 show ?thesis
    by blast
qed

subsection \<open>Resolution of incidents\<close>

lemma survivors_removeAll:
  assumes "\<not> resolution_progress (advanced st i) < 1"
  shows "filter (\<lambda>j. resolution_progress j < 1) (map (advanced st) (removeAll i xs))
           = filter (\<lambda>j. resolution_progress j < 1) (map (advanced st) xs)"
  using assms by (induction xs) auto

text \<open>
  C1, as amended.  In an active tick, an incident (with a base resolution time that is not
  0) whose progress the tick advances to 1.0 or more is removed from
  \<^verbatim>\<open>updatedIncidents\<close> that same tick, and its impact is not applied on that tick: the
  updated datasets are exactly those of the same tick on the snapshot without that
  incident.  Only the incidents that survive the tick lower the metrics.
\<close>

theorem resolved_incident_removed_without_impact:
  assumes "currentEvent s = None"
      and "i \<in> set (activeIncidents s)"
      and "base_resolution_time i \<noteq> 0"
      and "1 \<le> resolution_progress i
                + (1 / base_resolution_time i)
                  * prod_list (map (\<lambda>member. incident_resolution_speed (effects member))
                                   (staff s))"
  shows "i\<lparr>resolution_progress :=
             resolution_progress i
               + (1 / base_resolution_time i)
                 * prod_list (map (\<lambda>member. incident_resolution_speed (effects member))
                                  (staff s))\<rparr>
           \<notin> set (updatedIncidents (processTick env s))
       \<and> updatedDatasets (processTick env s)
           = updatedDatasets
               (processTick env (s\<lparr>activeIncidents := removeAll i (activeIncidents s)\<rparr>))"
proof -
  have gone: "\<not> resolution_progress (advanced (staff s) i) < 1"
    using assms(4) by (simp add: advanced_def speedProduct_def)
  have "advanced (staff s) i \<notin> set (updatedIncidents (processTick env s))"
    using gone by (auto simp: updatedIncidents_active assms(1))
  moreover have "updatedDatasets (processTick env s)
           = updatedDatasets
               (processTick env (s\<lparr>activeIncidents := removeAll i (activeIncidents s)\<rparr>))"
    by (simp add: updatedDatasets_active assms(1) fst_processIncidents
        survivors_removeAll[OF gone])
  ultimately show ?thesis by (simp add: advanced_def speedProduct_def)
qed

theorem resolved_incident_removed_without_impact_witness:
  "currentEvent (mockState [] [mockIncident 0.97 False] None) = None
   \<and> mockIncident 0.97 False \<in> set (activeIncidents (mockState [] [mockIncident 0.97 False] None))
   \<and> base_resolution_time (mockIncident 0.97 False) \<noteq> 0
   \<and> 1 \<le> resolution_progress (mockIncident 0.97 False)
           + (1 / base_resolution_time (mockIncident 0.97 False))
             * prod_list (map (\<lambda>member. incident_resolution_speed (effects member))
                              (staff (mockState [] [mockIncident 0.97 False] None)))
   \<and> mockIncident (0.97 + 1 / 30) False
        \<notin> set (updatedIncidents (processTick env0 (mockState [] [mockIncident 0.97 False] None)))
   \<and> updatedDatasets (processTick env0 (mockState [] [mockIncident 0.97 False] None))
       = updatedDatasets (processTick env0 (mockState [] [] None))"
proof -
  let ?s = "mockState [] [mockIncident 0.97 False] None"
  let ?p = "prod_list (map (\<lambda>member. incident_resolution_speed (effects member)) (staff ?s))"
  have h1: "currentEvent ?s = None" by (simp add: mockState_def)
  have h2: "mockIncident 0.97 False \<in> set (activeIncidents ?s)" by (simp add: mockState_def)
  have h3: "base_resolution_time (mockIncident 0.97 False) \<noteq> 0"
    by (simp add: mockIncident_def)
  have h4: "1 \<le> resolution_progress (mockIncident 0.97 False)
           + (1 / base_resolution_time (mockIncident 0.97 False)) * ?p"
    by (simp add: mockState_def mockIncident_def)
  have adv: "(mockIncident 0.97 False)\<lparr>resolution_progress :=
               resolution_progress (mockIncident 0.97 False)
                 + (1 / base_resolution_time (mockIncident 0.97 False)) * ?p\<rparr>
             = mockIncident (0.97 + 1 / 30) False"
    by (simp add: mockState_def mockIncident_def)
  have rest: "?s\<lparr>activeIncidents := removeAll (mockIncident 0.97 False) (activeIncidents ?s)\<rparr>
                = mockState [] [] None"
    by (simp add: mockState_def)
  from resolved_incident_removed_without_impact [OF h1 h2 h3 h4, of env0]
  show ?thesis unfolding adv rest using h1 h2 h3 h4 by blast
qed

text \<open>
  The claim C1 as stated fails on the test \<^verbatim>\<open>removes resolved incidents\<close>: the
  incident at progress 0.97 with base resolution time 30 crosses the threshold and is
  removed, and the metrics of its dataset are the decayed 99.9/99.9/99.9, not the
  89.9/94.9/94.9 that its impact of -10/-5/-5 would leave.
\<close>

theorem resolved_incident_impact_not_applied:
  "currentEvent (mockState [] [mockIncident 0.97 False] None) = None
   \<and> 1 \<le> resolution_progress (mockIncident 0.97 False)
          + (1 / base_resolution_time (mockIncident 0.97 False))
            * prod_list (map (\<lambda>member. incident_resolution_speed (effects member))
                             (staff (mockState [] [mockIncident 0.97 False] None)))
   \<and> dataset_id (mockIncident 0.97 False) = ds_id mockDataset
   \<and> metric_impact (mockIncident 0.97 False) = \<lparr>T = - 10, A = - 5, C = - 5\<rparr>
   \<and> updatedIncidents (processTick env0 (mockState [] [mockIncident 0.97 False] None)) = []
   \<and> map current_metrics
         (updatedDatasets (processTick env0 (mockState [] [mockIncident 0.97 False] None)))
       = [\<lparr>T = 99.9, A = 99.9, C = 99.9\<rparr>]
   \<and> map current_metrics
         (updatedDatasets (processTick env0 (mockState [] [mockIncident 0.97 False] None)))
       \<noteq> [applyImpacts (current_metrics (decayThenBonus [] mockDataset))
             [mockIncident 0.97 False]]
   \<and> applyImpacts (current_metrics (decayThenBonus [] mockDataset)) [mockIncident 0.97 False]
       = \<lparr>T = 89.9, A = 94.9, C = 94.9\<rparr>"
proof -
  let ?s = "mockState [] [mockIncident 0.97 False] None"
  have active: "currentEvent ?s = None" by (simp add: mockState_def)
  have crossed: "1 \<le> resolution_progress (mockIncident 0.97 False)
          + (1 / base_resolution_time (mockIncident 0.97 False))
            * prod_list (map (\<lambda>member. incident_resolution_speed (effects member)) (staff ?s))"
    by (simp add: mockIncident_def mockState_def)
  have target: "dataset_id (mockIncident 0.97 False) = ds_id mockDataset"
    "metric_impact (mockIncident 0.97 False) = \<lparr>T = - 10, A = - 5, C = - 5\<rparr>"
    by (simp_all add: mockIncident_def mockDataset_def)
  have removed: "updatedIncidents (processTick env0 ?s) = []"
    unfolding updatedIncidents_active[OF active]
    by (simp add: mockState_def mockIncident_def advanced_def speedProduct_def)
  have decayed: "current_metrics (decayThenBonus [] mockDataset)
                   = \<lparr>T = 99.9, A = 99.9, C = 99.9\<rparr>"
    by (simp add: decayThenBonus_def applyMetricDecay_def mockDataset_def decayPolicy_def)
  have metrics: "map current_metrics (updatedDatasets (processTick env0 ?s))
                   = [\<lparr>T = 99.9, A = 99.9, C = 99.9\<rparr>]"
    unfolding updatedDatasets_active[OF active] fst_processIncidents
    by (simp add: mockState_def mockIncident_def advanced_def speedProduct_def decayed
          applyImpacts_def refreshDataset_def)
  have applied: "applyImpacts (current_metrics (decayThenBonus [] mockDataset))
                   [mockIncident 0.97 False] = \<lparr>T = 89.9, A = 94.9, C = 94.9\<rparr>"
    by (simp add: decayed applyImpacts_def mockIncident_def)
  show ?thesis
    using active crossed target removed metrics applied by simp
qed

subsection \<open>Progress of an incident\<close>

lemma updatedIncidents_of:
  assumes "currentEvent s = None"
  shows "updatedIncidents (processTick env (s\<lparr>activeIncidents := xs\<rparr>))
           = filter (\<lambda>j. resolution_progress j < 1) (map (advanced (staff s)) xs)"
  using assms by (simp add: updatedIncidents_active)

text \<open>
  C9.  In an active tick with a positive product of the staff's resolution-speed factors,
  an incident \<open>i\<close> of the input with a positive base resolution time is replaced, at its
  place in the list, by itself with the progress advanced by exactly
  \<^verbatim>\<open>(1 / base_resolution_time)\<close> times that product, or is dropped when the advanced
  progress is not below 1; the advanced progress is strictly greater than the old one;
  the product is 1 without staff; and an incident at progress 0.97 with base resolution
  time 30, without staff, is dropped by this one tick.
\<close>

theorem incident_progress_advance:
  assumes "currentEvent s = None"
      and "activeIncidents s = before @ i # after"
      and "0 < base_resolution_time i"
      and "0 < prod_list (map (\<lambda>member. incident_resolution_speed (effects member)) (staff s))"
  shows "updatedIncidents (processTick env s) =
           updatedIncidents (processTick env (s\<lparr>activeIncidents := before\<rparr>))
           @ (if resolution_progress i
                   + (1 / base_resolution_time i)
                     * prod_list (map (\<lambda>member. incident_resolution_speed (effects member))
                                      (staff s)) < 1
              then [i\<lparr>resolution_progress :=
                        resolution_progress i
                          + (1 / base_resolution_time i)
                            * prod_list (map (\<lambda>member. incident_resolution_speed (effects member))
                                             (staff s))\<rparr>]
              else [])
           @ updatedIncidents (processTick env (s\<lparr>activeIncidents := after\<rparr>))
       \<and> resolution_progress i
           < resolution_progress i
               + (1 / base_resolution_time i)
                 * prod_list (map (\<lambda>member. incident_resolution_speed (effects member)) (staff s))
       \<and> (staff s = [] \<longrightarrow>
            prod_list (map (\<lambda>member. incident_resolution_speed (effects member)) (staff s)) = 1)
       \<and> (staff s = [] \<and> resolution_progress i = 0.97 \<and> base_resolution_time i = 30 \<longrightarrow>
            updatedIncidents (processTick env s) =
              updatedIncidents (processTick env (s\<lparr>activeIncidents := before\<rparr>))
              @ updatedIncidents (processTick env (s\<lparr>activeIncidents := after\<rparr>)))"
proof -
  let ?p = "prod_list (map (\<lambda>member. incident_resolution_speed (effects member)) (staff s))"
  have split: "updatedIncidents (processTick env s) =
           updatedIncidents (processTick env (s\<lparr>activeIncidents := before\<rparr>))
           @ (if resolution_progress i + (1 / base_resolution_time i) * ?p < 1
              then [i\<lparr>resolution_progress :=
                        resolution_progress i + (1 / base_resolution_time i) * ?p\<rparr>]
              else [])
           @ updatedIncidents (processTick env (s\<lparr>activeIncidents := after\<rparr>))"
    by (simp add: updatedIncidents_of[OF assms(1)] updatedIncidents_active[OF assms(1)]
        assms(2) advanced_def speedProduct_def)
  have "0 < (1 / base_resolution_time i) * ?p"
    using assms(3,4) by simp
  then have grows: "resolution_progress i
           < resolution_progress i + (1 / base_resolution_time i) * ?p"
    by simp
  have last: "updatedIncidents (processTick env s) =
              updatedIncidents (processTick env (s\<lparr>activeIncidents := before\<rparr>))
              @ updatedIncidents (processTick env (s\<lparr>activeIncidents := after\<rparr>))"
    if "staff s = []" "resolution_progress i = 0.97" "base_resolution_time i = 30"
    using split that by simp
  show ?thesis using split grows last by simp
qed

theorem incident_progress_advance_witness:
  "currentEvent (mockState [mockEngineer] [mockIncident 0 False] None) = None
   \<and> activeIncidents (mockState [mockEngineer] [mockIncident 0 False] None)
       = [] @ mockIncident 0 False # []
   \<and> 0 < base_resolution_time (mockIncident 0 False)
   \<and> 0 < prod_list (map (\<lambda>member. incident_resolution_speed (effects member))
                      (staff (mockState [mockEngineer] [mockIncident 0 False] None)))
   \<and> updatedIncidents (processTick env0 (mockState [mockEngineer] [mockIncident 0 False] None))
       = [mockIncident (1 / 15) False]
   \<and> currentEvent (mockState [] [mockIncident 0.97 False] None) = None
   \<and> activeIncidents (mockState [] [mockIncident 0.97 False] None)
       = [] @ mockIncident 0.97 False # []
   \<and> 0 < prod_list (map (\<lambda>member. incident_resolution_speed (effects member))
                      (staff (mockState [] [mockIncident 0.97 False] None)))
   \<and> staff (mockState [] [mockIncident 0.97 False] None) = []
   \<and> resolution_progress (mockIncident 0.97 False) = 0.97
   \<and> base_resolution_time (mockIncident 0.97 False) = 30
   \<and> updatedIncidents (processTick env0 (mockState [] [mockIncident 0.97 False] None)) = []"
proof -
  let ?s = "mockState [mockEngineer] [mockIncident 0 False] None"
  let ?u = "mockState [] [mockIncident 0.97 False] None"
  have s1: "currentEvent ?s = None" by (simp add: mockState_def)
  have s2: "activeIncidents ?s = [] @ mockIncident 0 False # []" by (simp add: mockState_def)
  have s3: "0 < base_resolution_time (mockIncident 0 False)" by (simp add: mockIncident_def)
  have s4: "0 < prod_list (map (\<lambda>member. incident_resolution_speed (effects member)) (staff ?s))"
    by (simp add: mockState_def mockEngineer_def)
  have speed: "prod_list (map (\<lambda>member. incident_resolution_speed (effects member)) (staff ?s)) = 2"
    by (simp add: mockState_def mockEngineer_def)
  have none: "updatedIncidents (processTick env0 (?s\<lparr>activeIncidents := []\<rparr>)) = []"
    by (simp add: updatedIncidents_of[OF s1])
  have adv: "(mockIncident 0 False)\<lparr>resolution_progress :=
               resolution_progress (mockIncident 0 False)
                 + (1 / base_resolution_time (mockIncident 0 False)) * 2\<rparr>
             = mockIncident (1 / 15) False"
    "resolution_progress (mockIncident 0 False)
                 + (1 / base_resolution_time (mockIncident 0 False)) * 2 < 1"
    by (simp_all add: mockIncident_def)
  from incident_progress_advance [OF s1 s2 s3 s4, of env0]
  have first: "updatedIncidents (processTick env0 ?s) = [mockIncident (1 / 15) False]"
    unfolding speed none using adv by simp
  have u1: "currentEvent ?u = None" by (simp add: mockState_def)
  have u2: "activeIncidents ?u = [] @ mockIncident 0.97 False # []" by (simp add: mockState_def)
  have u3: "0 < base_resolution_time (mockIncident 0.97 False)" by (simp add: mockIncident_def)
  have u4: "0 < prod_list (map (\<lambda>member. incident_resolution_speed (effects member)) (staff ?u))"
    by (simp add: mockState_def)
  have u5: "staff ?u = []" by (simp add: mockState_def)
  have u6: "resolution_progress (mockIncident 0.97 False) = 0.97"
    "base_resolution_time (mockIncident 0.97 False) = 30"
    by (simp_all add: mockIncident_def)
  have unone: "updatedIncidents (processTick env0 (?u\<lparr>activeIncidents := []\<rparr>)) = []"
    unfolding updatedIncidents_of[OF u1] by simp
  from incident_progress_advance [OF u1 u2 u3 u4, of env0] u5 u6
  have "updatedIncidents (processTick env0 ?u) =
              updatedIncidents (processTick env0 (?u\<lparr>activeIncidents := []\<rparr>))
              @ updatedIncidents (processTick env0 (?u\<lparr>activeIncidents := []\<rparr>))"
    by blast
  then have second: "updatedIncidents (processTick env0 ?u) = []"
    unfolding unone by simp
  show ?thesis
    using s1 s2 s3 s4 first u1 u2 u4 u5 u6 second by blast
qed

end
